theory Spec2Isabelle
  imports Complex_Main
begin

text \<open>
  A model of the real-time stream monitor of PatchEval's Gemini CLI agent harness
  (\<open>patcheval/exp_agent/geminicli/patcheval/stream_monitor.py\<close>, class
  \<open>RealTimeStreamMonitor\<close>): the parsing of the agent's output line by line, the
  counting of tool calls and of cost against their budgets, the offline analysis of a
  transcript and the statistics snapshot. The monitor is a record of its mutable fields
  that each method takes and returns; a method that can raise returns the exception, if
  any, beside the state it leaves. The libraries the monitor calls (\<open>json\<close>, \<open>re\<close>, the
  methods of \<open>str\<close>) are modelled as far as the monitor uses them. The threads, the
  subprocess and the clock of the process readers are not part of the model.
\<close>

section \<open>Python text primitives used by the stream monitor\<close>

text \<open>
  A Python \<open>str\<close> is modelled as a \<open>string\<close>, each \<open>char\<close> standing for the
  code point of the same number (so the model covers text of code points below 256).
  \<open>isspace\<close> and \<open>isdigit_char\<close> list the code points below 256 for which
  \<open>str.isspace\<close> and \<open>str.isdigit\<close> answer true.
\<close>

definition isspace :: "char \<Rightarrow> bool" where
  "isspace c = (of_char c \<in> {9, 10, 11, 12, 13, 28, 29, 30, 31, 32, 133, 160 :: nat})"

definition isdigit_char :: "char \<Rightarrow> bool" where
  "isdigit_char c = ((48 \<le> (of_char c :: nat) \<and> (of_char c :: nat) \<le> 57)
     \<or> of_char c \<in> {178, 179, 185 :: nat})"

definition isdigit :: "string \<Rightarrow> bool" where
  "isdigit s = (s \<noteq> [] \<and> list_all isdigit_char s)"

definition strip :: "string \<Rightarrow> string" where
  "strip s = rev (dropWhile isspace (rev (dropWhile isspace s)))"

fun startswith :: "string \<Rightarrow> string \<Rightarrow> bool" where
  "startswith s [] = True"
| "startswith [] (p # ps) = False"
| "startswith (c # cs) (p # ps) = (c = p \<and> startswith cs ps)"

definition endswith :: "string \<Rightarrow> string \<Rightarrow> bool" where
  "endswith s p = startswith (rev s) (rev p)"

text \<open>\<open>str.find\<close>: the least index at which the pattern occurs, \<open>None\<close> for Python's -1.\<close>

fun find_sub :: "string \<Rightarrow> string \<Rightarrow> nat option" where
  "find_sub [] p = (if p = [] then Some 0 else None)"
| "find_sub (c # cs) p =
     (if startswith (c # cs) p then Some 0 else map_option Suc (find_sub cs p))"

definition contains :: "string \<Rightarrow> string \<Rightarrow> bool" where
  "contains s p = (find_sub s p \<noteq> None)"

text \<open>\<open>s.split("_")[-1]\<close>: the text after the last underscore (all of \<open>s\<close> without one).\<close>

definition last_segment :: "string \<Rightarrow> string" where
  "last_segment s = rev (takeWhile (\<lambda>c. c \<noteq> CHR ''_'') (rev s))"

section \<open>JSON values and \<open>json.loads\<close>\<close>

text \<open>
  Python's \<open>int\<close> and \<open>float\<close> are both read as exact rationals (\<open>1 == 1.0\<close> in
  Python, and the two are the same dictionary key); rounding of binary floating point is
  not modelled. An object is an association list in insertion order with distinct keys.
\<close>

datatype json =
    JNull
  | JBool bool
  | JNum rat
  | JStr string
  | JArr "json list"
  | JObj "(string \<times> json) list"

fun dict_set :: "('k \<times> 'v) list \<Rightarrow> 'k \<Rightarrow> 'v \<Rightarrow> ('k \<times> 'v) list" where
  "dict_set [] k v = [(k, v)]"
| "dict_set ((k', v') # kvs) k v =
     (if k' = k then (k', v) # kvs else (k', v') # dict_set kvs k v)"

definition json_ws :: "char \<Rightarrow> bool" where
  "json_ws c = (c = CHR '' '' \<or> c = CHR 0x09 \<or> c = CHR 0x0A \<or> c = CHR 0x0D)"

definition skip_ws :: "string \<Rightarrow> string" where
  "skip_ws s = dropWhile json_ws s"

definition ascii_digit :: "char \<Rightarrow> bool" where
  "ascii_digit c = (48 \<le> (of_char c :: nat) \<and> (of_char c :: nat) \<le> 57)"

definition digit_val :: "char \<Rightarrow> nat" where
  "digit_val c = of_char c - 48"

definition nat_of_digits :: "string \<Rightarrow> nat" where
  "nat_of_digits ds = foldl (\<lambda>n c. 10 * n + digit_val c) 0 ds"

definition hex_val :: "char \<Rightarrow> nat option" where
  "hex_val c =
     (let n = (of_char c :: nat) in
      if 48 \<le> n \<and> n \<le> 57 then Some (n - 48)
      else if 97 \<le> n \<and> n \<le> 102 then Some (n - 87)
      else if 65 \<le> n \<and> n \<le> 70 then Some (n - 55)
      else None)"

fun hex4 :: "string \<Rightarrow> nat option" where
  "hex4 (a # b # c # d # _) =
     (case (hex_val a, hex_val b, hex_val c, hex_val d) of
        (Some x, Some y, Some z, Some w) \<Rightarrow> Some (((x * 16 + y) * 16 + z) * 16 + w)
      | _ \<Rightarrow> None)"
| "hex4 _ = None"

definition unescape :: "char \<Rightarrow> char option" where
  "unescape e =
     (if e = CHR 0x22 then Some (CHR 0x22)
      else if e = CHR 0x5C then Some (CHR 0x5C)
      else if e = CHR ''/'' then Some (CHR ''/'')
      else if e = CHR ''b'' then Some (CHR 0x08)
      else if e = CHR ''f'' then Some (CHR 0x0C)
      else if e = CHR ''n'' then Some (CHR 0x0A)
      else if e = CHR ''r'' then Some (CHR 0x0D)
      else if e = CHR ''t'' then Some (CHR 0x09)
      else None)"

text \<open>
  The text of a string literal after its opening quote: the decoded content and what
  follows the closing quote. Control characters below 0x20 are refused (strict mode). An
  escape \<open>\uXXXX\<close> of a code point from 256 on names a character outside the modelled
  alphabet and is refused here, where Python would decode it.
\<close>

fun scan_string :: "string \<Rightarrow> (string \<times> string) option" where
  "scan_string [] = None"
| "scan_string (c # cs) =
     (if c = CHR 0x22 then Some ([], cs)
      else if c = CHR 0x5C then
        (case cs of
           [] \<Rightarrow> None
         | e # es \<Rightarrow>
             if e = CHR ''u'' then
               (case hex4 es of
                  None \<Rightarrow> None
                | Some n \<Rightarrow>
                    if n < 256
                    then map_option (\<lambda>(s, r). (char_of n # s, r)) (scan_string (drop 4 es))
                    else None)
             else
               (case unescape e of
                  None \<Rightarrow> None
                | Some d \<Rightarrow> map_option (\<lambda>(s, r). (d # s, r)) (scan_string es)))
      else if (of_char c :: nat) < 32 then None
      else map_option (\<lambda>(s, r). (c # s, r)) (scan_string cs))"

text \<open>
  A number literal \<open>-?(0|[1-9][0-9]*)(\.[0-9]+)?([eE][-+]?[0-9]+)?\<close>; a fraction or
  an exponent that is not complete is left unread, as the regular expression of the
  decoder leaves it.
\<close>

definition scan_int_part :: "string \<Rightarrow> (string \<times> string) option" where
  "scan_int_part s =
     (case s of
        [] \<Rightarrow> None
      | c # cs \<Rightarrow>
          if c = CHR ''0'' then Some ([c], cs)
          else if ascii_digit c then Some (takeWhile ascii_digit s, dropWhile ascii_digit s)
          else None)"

definition scan_frac :: "string \<Rightarrow> string \<times> string" where
  "scan_frac s =
     (case s of
        c # d # ds \<Rightarrow>
          if c = CHR ''.'' \<and> ascii_digit d
          then (takeWhile ascii_digit (d # ds), dropWhile ascii_digit (d # ds))
          else ([], s)
      | _ \<Rightarrow> ([], s))"

definition scan_exp :: "string \<Rightarrow> int \<times> string" where
  "scan_exp s =
     (case s of
        [] \<Rightarrow> (0, s)
      | e # r \<Rightarrow>
          if e = CHR ''e'' \<or> e = CHR ''E'' then
            (case r of
               [] \<Rightarrow> (0, s)
             | g # r' \<Rightarrow>
                 if g = CHR ''+'' \<or> g = CHR ''-'' then
                   (case r' of
                      [] \<Rightarrow> (0, s)
                    | d # _ \<Rightarrow>
                        if ascii_digit d
                        then ((if g = CHR ''-'' then - 1 else 1)
                                * int (nat_of_digits (takeWhile ascii_digit r')),
                              dropWhile ascii_digit r')
                        else (0, s))
                 else if ascii_digit g
                 then (int (nat_of_digits (takeWhile ascii_digit r)), dropWhile ascii_digit r)
                 else (0, s))
          else (0, s))"

definition scan_number :: "string \<Rightarrow> (rat \<times> string) option" where
  "scan_number s =
     (let neg = (case s of [] \<Rightarrow> False | c # _ \<Rightarrow> c = CHR ''-'');
          s1 = (if neg then tl s else s)
      in case scan_int_part s1 of
           None \<Rightarrow> None
         | Some (ip, r1) \<Rightarrow>
             let (fp, r2) = scan_frac r1;
                 (ex, r3) = scan_exp r2;
                 mant = of_nat (nat_of_digits ip)
                          + of_nat (nat_of_digits fp) / (10 ^ length fp);
                 v = (if 0 \<le> ex then mant * 10 ^ nat ex else mant / 10 ^ nat (- ex))
             in Some (if neg then - v else v, r3))"


text \<open>
  The recursive-descent decoder: \<open>parse_value\<close> reads one value at the head of the text,
  \<open>parse_elems\<close> the elements of an array and \<open>parse_members\<close> the members of an object
  (a repeated key keeps its first position and takes the last value). The literals
  \<open>NaN\<close> and \<open>Infinity\<close>, which Python accepts beyond JSON, have no rational value and are
  refused. The tests \<open>length r < length s\<close> always succeed; they make the recursion
  visibly terminate.
\<close>

function parse_value :: "string \<Rightarrow> (json \<times> string) option"
  and parse_elems :: "string \<Rightarrow> json list \<Rightarrow> (json \<times> string) option"
  and parse_members :: "string \<Rightarrow> (string \<times> json) list \<Rightarrow> (json \<times> string) option"
where
  "parse_value s =
     (case s of
        [] \<Rightarrow> None
      | c # cs \<Rightarrow>
          if c = CHR 0x22 then map_option (\<lambda>(t, r). (JStr t, r)) (scan_string cs)
          else if c = CHR ''{'' then
            (case skip_ws cs of
               [] \<Rightarrow> None
             | d # ds \<Rightarrow> if d = CHR ''}'' then Some (JObj [], ds)
                        else parse_members (d # ds) [])
          else if c = CHR ''['' then
            (case skip_ws cs of
               [] \<Rightarrow> None
             | d # ds \<Rightarrow> if d = CHR '']'' then Some (JArr [], ds)
                        else parse_elems (d # ds) [])
          else if startswith s ''null'' then Some (JNull, drop 4 s)
          else if startswith s ''true'' then Some (JBool True, drop 4 s)
          else if startswith s ''false'' then Some (JBool False, drop 5 s)
          else map_option (\<lambda>(n, r). (JNum n, r)) (scan_number s))"
| "parse_elems s acc =
     (case parse_value s of
        None \<Rightarrow> None
      | Some (v, r) \<Rightarrow>
          if length r < length s then
            (case skip_ws r of
               [] \<Rightarrow> None
             | d # ds \<Rightarrow>
                 if d = CHR '']'' then Some (JArr (acc @ [v]), ds)
                 else if d = CHR '','' then parse_elems (skip_ws ds) (acc @ [v])
                 else None)
          else None)"
| "parse_members s acc =
     (case s of
        [] \<Rightarrow> None
      | q # cs \<Rightarrow>
          if q = CHR 0x22 then
            (case scan_string cs of
               None \<Rightarrow> None
             | Some (k, r) \<Rightarrow>
                 if length r < length s then
                   (case skip_ws r of
                      [] \<Rightarrow> None
                    | d # ds \<Rightarrow>
                        if d = CHR '':'' then
                          (case parse_value (skip_ws ds) of
                             None \<Rightarrow> None
                           | Some (v, r2) \<Rightarrow>
                               if length r2 < length s then
                                 (case skip_ws r2 of
                                    [] \<Rightarrow> None
                                  | e # es \<Rightarrow>
                                      if e = CHR ''}'' then Some (JObj (dict_set acc k v), es)
                                      else if e = CHR '','' then
                                        parse_members (skip_ws es) (dict_set acc k v)
                                      else None)
                               else None)
                        else None)
                 else None)
          else None)"
  by pat_completeness auto
termination
proof -
  have le: "length (dropWhile json_ws s) \<le> length s" for s
    by (rule length_dropWhile_le)
  have cons: "Suc (length ds) \<le> length s" if "dropWhile json_ws s = d # ds" for s d ds
    using le [of s] that by simp
  have both: "Suc (length ds) \<le> length s \<and> length (dropWhile json_ws ds) < length s"
    if "dropWhile json_ws s = d # ds" for s d ds
    using cons [OF that] le [of ds] by simp
  show ?thesis
    apply (relation "measure (\<lambda>x. case x of
          Inl s \<Rightarrow> 2 * length s
        | Inr (Inl (s, acc)) \<Rightarrow> 2 * length s + 1
        | Inr (Inr (s, acc)) \<Rightarrow> 2 * length s + 1)")
              apply (simp_all add: skip_ws_def)
        apply (auto dest!: both)
    done
qed

declare parse_value.simps [simp del] parse_elems.simps [simp del] parse_members.simps [simp del]

text \<open>
  \<open>json.loads\<close>: one value between optional white space, \<open>None\<close> for JSONDecodeError.
  The limits of the interpreter (its recursion depth on deeply nested text) are not
  modelled.
\<close>

definition json_loads :: "string \<Rightarrow> json option" where
  "json_loads s =
     (case parse_value (skip_ws s) of
        None \<Rightarrow> None
      | Some (v, r) \<Rightarrow> if skip_ws r = [] then Some v else None)"

section \<open>Dynamic values: truth, keys, numbers\<close>

text \<open>
  The monitor hands decoded JSON to its handlers unchecked, so the handlers are modelled
  on \<open>json\<close> values and raise where Python raises. These are the exceptions that
  can arise and that \<open>except Exception\<close> catches (a JSONDecodeError is the \<open>None\<close> of
  \<open>json_loads\<close>).
\<close>

datatype exn = AttributeError | TypeError | KeyError

fun truthy :: "json \<Rightarrow> bool" where
  "truthy JNull = False"
| "truthy (JBool b) = b"
| "truthy (JNum r) = (r \<noteq> 0)"
| "truthy (JStr s) = (s \<noteq> [])"
| "truthy (JArr xs) = (xs \<noteq> [])"
| "truthy (JObj kvs) = (kvs \<noteq> [])"

text \<open>
  The key under which a value is stored in a \<open>dict\<close>: \<open>True == 1\<close> and \<open>False == 0\<close>
  share their key; a list or an object is unhashable (\<open>None\<close>, a TypeError).
\<close>

fun py_key :: "json \<Rightarrow> json option" where
  "py_key (JBool b) = Some (JNum (if b then 1 else 0))"
| "py_key (JArr xs) = None"
| "py_key (JObj kvs) = None"
| "py_key v = Some v"

text \<open>The number a value stands for in arithmetic and in \<open>x > 0\<close> (\<open>None\<close>: TypeError).\<close>

fun py_num :: "json \<Rightarrow> rat option" where
  "py_num (JNum r) = Some r"
| "py_num (JBool b) = Some (if b then 1 else 0)"
| "py_num v = None"

text \<open>\<open>d.get(k, default)\<close> on a decoded object.\<close>

definition dict_get :: "(string \<times> json) list \<Rightarrow> string \<Rightarrow> json \<Rightarrow> json" where
  "dict_get d k dflt = (case map_of d k of None \<Rightarrow> dflt | Some v \<Rightarrow> v)"

text \<open>
  A \<open>defaultdict(int)\<close> in insertion order: reading a missing key stores 0 under it,
  \<open>d[k] += 1\<close> reads and then stores.
\<close>

definition dd_read :: "('k \<times> int) list \<Rightarrow> 'k \<Rightarrow> int \<times> ('k \<times> int) list" where
  "dd_read d k = (case map_of d k of None \<Rightarrow> (0, d @ [(k, 0)]) | Some v \<Rightarrow> (v, d))"

definition dd_incr :: "('k \<times> int) list \<Rightarrow> 'k \<Rightarrow> ('k \<times> int) list" where
  "dd_incr d k = (let (v, d') = dd_read d k in dict_set d' k (v + 1))"

section \<open>The monitor: configuration and running state\<close>

record price =
  input_price :: rat
  output_price :: rat

definition pricing :: "(string \<times> price) list" where
  "pricing =
     [(''claude-3-5-haiku-20241022'', \<lparr>input_price = 1, output_price = 5\<rparr>),
      (''kimi-k2-0711-preview'', \<lparr>input_price = 1, output_price = 5\<rparr>),
      (''claude-3-5-sonnet-20241022'', \<lparr>input_price = 3, output_price = 15\<rparr>)]"

record monitor_config =
  tool_limits :: "(string \<times> int) list"
  max_total_calls :: "int option"
  max_cost_usd :: rat

text \<open>
  A stop reason stands for the message handed to the logger and to every stop callback;
  it keeps the values the message is formatted from. \<open>stop_reasons\<close> is the sequence of
  these notifications. A callback cannot disturb the monitor: what it raises is caught.
\<close>

datatype stop_reason =
    TotalCallsReached int
  | ToolLimitReached json int
  | CostReached rat rat

record monitor_state =
  tool_calls :: "(json \<times> int) list"
  total_calls :: int
  id_format_stats :: "(string \<times> int) list"
  current_cost_usd :: rat
  total_input_tokens :: rat
  total_output_tokens :: rat
  should_stop :: bool
  stop_reasons :: "stop_reason list"
  json_buffer :: string
  in_json_block :: bool

definition init_state :: monitor_state where
  "init_state =
     \<lparr>tool_calls = [], total_calls = 0, id_format_stats = [],
      current_cost_usd = 0, total_input_tokens = 0, total_output_tokens = 0,
      should_stop = False, stop_reasons = [], json_buffer = [], in_json_block = False\<rparr>"

text \<open>Sequencing of two steps that may raise: the second runs only if the first returned.\<close>

definition and_then ::
  "exn option \<times> monitor_state \<Rightarrow> (monitor_state \<Rightarrow> exn option \<times> monitor_state)
     \<Rightarrow> exn option \<times> monitor_state" where
  "and_then r f = (case r of (None, st) \<Rightarrow> f st | (Some e, st) \<Rightarrow> (Some e, st))"

section \<open>Event handlers\<close>

definition detect_tool_id_format :: "json \<Rightarrow> exn + string" where
  "detect_tool_id_format tool_id =
     (if \<not> truthy tool_id then Inr ''unknown''
      else case tool_id of
        JStr s \<Rightarrow>
          if startswith s ''toolu_'' then Inr ''anthropic_standard''
          else if startswith s ''call_'' \<and> CHR ''_'' \<in> set (drop 5 s) then Inr ''proxy_format''
          else if CHR ''_'' \<in> set s \<and> isdigit (last_segment s) then Inr ''simplified''
          else Inr ''custom''
      | _ \<Rightarrow> Inl AttributeError)"

definition notify_stop :: "stop_reason \<Rightarrow> monitor_state \<Rightarrow> monitor_state" where
  "notify_stop reason st = st\<lparr>stop_reasons := stop_reasons st @ [reason]\<rparr>"

text \<open>The limit that a count has reached, if there is a limit and it is reached.\<close>

definition reached :: "int option \<Rightarrow> int \<Rightarrow> int option" where
  "reached limit n = (case limit of None \<Rightarrow> None | Some l \<Rightarrow> if l \<le> n then Some l else None)"

definition handle_tool_call ::
  "monitor_config \<Rightarrow> json \<Rightarrow> json \<Rightarrow> monitor_state \<Rightarrow> exn option \<times> monitor_state" where
  "handle_tool_call cfg tool_name tool_id st =
     (case detect_tool_id_format tool_id of
        Inl e \<Rightarrow> (Some e, st)
      | Inr id_format \<Rightarrow>
          let st1 = st\<lparr>id_format_stats := dd_incr (id_format_stats st) id_format\<rparr> in
          (case reached (max_total_calls cfg) (total_calls st1) of
             Some m \<Rightarrow> (None, notify_stop (TotalCallsReached m) (st1\<lparr>should_stop := True\<rparr>))
           | None \<Rightarrow>
               (case py_key tool_name of
                  None \<Rightarrow> (Some TypeError, st1)
                | Some k \<Rightarrow>
                    let tool_limit =
                          (case tool_name of
                             JStr n \<Rightarrow> map_of (tool_limits cfg) n
                           | _ \<Rightarrow> None);
                        (current_count, tc) = dd_read (tool_calls st1) k;
                        st2 = st1\<lparr>tool_calls := tc\<rparr>
                    in (case reached tool_limit current_count of
                          Some l \<Rightarrow>
                            (None, notify_stop (ToolLimitReached tool_name l)
                                     (st2\<lparr>should_stop := True\<rparr>))
                        | None \<Rightarrow>
                            (None, st2\<lparr>tool_calls := dict_set tc k (current_count + 1),
                                         total_calls := total_calls st2 + 1\<rparr>)))))"

text \<open>
  \<open>self.pricing.get(model, self.pricing['claude-3-5-sonnet-20241022'])\<close>: the default is
  looked up first, then the model is hashed.
\<close>

definition lookup_pricing :: "json \<Rightarrow> exn + price" where
  "lookup_pricing model =
     (case map_of pricing ''claude-3-5-sonnet-20241022'' of
        None \<Rightarrow> Inl KeyError
      | Some dflt \<Rightarrow>
          (case py_key model of
             None \<Rightarrow> Inl TypeError
           | Some _ \<Rightarrow>
               Inr (case model of
                      JStr m \<Rightarrow> (case map_of pricing m of None \<Rightarrow> dflt | Some p \<Rightarrow> p)
                    | _ \<Rightarrow> dflt)))"

text \<open>
  \<open>_handle_usage_data\<close>: the guard \<open>input_tokens > 0 or output_tokens > 0\<close> compares the
  output only when the input is not positive; \<open>charge_usage\<close> is the guarded block.
\<close>

definition charge_usage ::
  "monitor_config \<Rightarrow> rat \<Rightarrow> json \<Rightarrow> json \<Rightarrow> monitor_state \<Rightarrow> exn option \<times> monitor_state" where
  "charge_usage cfg input_tokens output_tokens model st =
     (let st1 = st\<lparr>total_input_tokens := total_input_tokens st + input_tokens\<rparr> in
      case py_num output_tokens of
        None \<Rightarrow> (Some TypeError, st1)
      | Some out_tokens \<Rightarrow>
          let st2 = st1\<lparr>total_output_tokens := total_output_tokens st1 + out_tokens\<rparr> in
          (case lookup_pricing model of
             Inl e \<Rightarrow> (Some e, st2)
           | Inr p \<Rightarrow>
               let input_cost = (input_tokens / 1000000) * input_price p;
                   output_cost = (out_tokens / 1000000) * output_price p;
                   new_cost = input_cost + output_cost;
                   st3 = st2\<lparr>current_cost_usd := current_cost_usd st2 + new_cost\<rparr>
               in if max_cost_usd cfg \<le> current_cost_usd st3
                  then (None, notify_stop (CostReached (current_cost_usd st3) (max_cost_usd cfg))
                                (st3\<lparr>should_stop := True\<rparr>))
                  else (None, st3)))"

definition handle_usage_data ::
  "monitor_config \<Rightarrow> json \<Rightarrow> json \<Rightarrow> monitor_state \<Rightarrow> exn option \<times> monitor_state" where
  "handle_usage_data cfg usage model st =
     (case usage of
        JObj u \<Rightarrow>
          let input_tokens = dict_get u ''input_tokens'' (JNum 0);
              output_tokens = dict_get u ''output_tokens'' (JNum 0)
          in (case py_num input_tokens of
                None \<Rightarrow> (Some TypeError, st)
              | Some i \<Rightarrow>
                  if 0 < i then charge_usage cfg i output_tokens model st
                  else (case py_num output_tokens of
                          None \<Rightarrow> (Some TypeError, st)
                        | Some out \<Rightarrow>
                            if 0 < out then charge_usage cfg i output_tokens model st
                            else (None, st)))
      | _ \<Rightarrow> (Some AttributeError, st))"

fun handle_content_items ::
  "monitor_config \<Rightarrow> json list \<Rightarrow> monitor_state \<Rightarrow> exn option \<times> monitor_state" where
  "handle_content_items cfg [] st = (None, st)"
| "handle_content_items cfg (item # items) st =
     (case item of
        JObj it \<Rightarrow>
          if map_of it ''type'' = Some (JStr ''tool_use'') then
            (let tool_name = dict_get it ''name'' (JStr []);
                 tool_id = dict_get it ''id'' (JStr [])
             in if truthy tool_name
                then and_then (handle_tool_call cfg tool_name tool_id st)
                       (handle_content_items cfg items)
                else handle_content_items cfg items st)
          else handle_content_items cfg items st
      | _ \<Rightarrow> handle_content_items cfg items st)"

definition handle_json_message ::
  "monitor_config \<Rightarrow> json \<Rightarrow> monitor_state \<Rightarrow> exn option \<times> monitor_state" where
  "handle_json_message cfg data st =
     (case data of
        JObj d \<Rightarrow>
          if dict_get d ''type'' (JStr []) = JStr ''assistant'' then
            (case dict_get d ''message'' (JObj []) of
               JObj message \<Rightarrow>
                 and_then
                   (case dict_get message ''content'' (JArr []) of
                      JArr content \<Rightarrow> handle_content_items cfg content st
                    | _ \<Rightarrow> (None, st))
                   (\<lambda>st1.
                      let usage = dict_get message ''usage'' (JObj []) in
                      if truthy usage
                      then handle_usage_data cfg usage (dict_get message ''model'' (JStr [])) st1
                      else (None, st1))
             | _ \<Rightarrow> (Some AttributeError, st))
          else (None, st)
      | _ \<Rightarrow> (Some AttributeError, st))"

section \<open>Accumulation of a JSON object split over several lines\<close>

definition try_parse_direct_json ::
  "monitor_config \<Rightarrow> string \<Rightarrow> monitor_state \<Rightarrow> exn option \<times> bool \<times> monitor_state" where
  "try_parse_direct_json cfg json_str st =
     (case json_loads json_str of
        None \<Rightarrow> (None, False, st)
      | Some data \<Rightarrow>
          (case handle_json_message cfg data st of (e, st1) \<Rightarrow> (e, True, st1)))"

text \<open>
  \<open>_try_parse_buffered_json\<close> catches everything: a decode error empties a buffer of more
  than 50000 characters, any other exception of the handler leaves the buffer as it is.
\<close>

definition try_parse_buffered_json :: "monitor_config \<Rightarrow> monitor_state \<Rightarrow> monitor_state" where
  "try_parse_buffered_json cfg st =
     (if json_buffer st = [] then st
      else case json_loads (json_buffer st) of
        None \<Rightarrow>
          if 50000 < length (json_buffer st)
          then st\<lparr>json_buffer := [], in_json_block := False\<rparr>
          else st
      | Some data \<Rightarrow>
          (case handle_json_message cfg data st of
             (None, st1) \<Rightarrow> st1\<lparr>json_buffer := [], in_json_block := False\<rparr>
           | (Some e, st1) \<Rightarrow> st1))"

definition json_starts :: "string list" where
  "json_starts = [''{\"type\":\"assistant\"'', ''{\"type\":\"user\"'', ''{\"type\":\"system\"'']"

text \<open>
  The loop over the markers returns at the first marker of the list that occurs in the
  line; \<open>first_found\<close> is the position of that marker.
\<close>

fun first_found :: "string \<Rightarrow> string list \<Rightarrow> nat option" where
  "first_found line [] = None"
| "first_found line (start_marker # ms) =
     (case find_sub line start_marker of
        Some start_pos \<Rightarrow> Some start_pos
      | None \<Rightarrow> first_found line ms)"

definition process_json_buffer ::
  "monitor_config \<Rightarrow> string \<Rightarrow> monitor_state \<Rightarrow> monitor_state" where
  "process_json_buffer cfg line st =
     (case first_found line json_starts of
        Some start_pos \<Rightarrow>
          let st1 = (if json_buffer st \<noteq> [] then try_parse_buffered_json cfg st else st);
              potential_json = drop start_pos line
          in if 0 < count_list potential_json CHR ''{'' \<and> endswith potential_json ''}'' then
               (case try_parse_direct_json cfg potential_json st1 of
                  (Some e, _, st2) \<Rightarrow> st2
                | (None, True, st2) \<Rightarrow> st2
                | (None, False, st2) \<Rightarrow>
                    st2\<lparr>json_buffer := potential_json, in_json_block := True\<rparr>)
             else st1\<lparr>json_buffer := potential_json, in_json_block := True\<rparr>
      | None \<Rightarrow>
          if in_json_block st
          then try_parse_buffered_json cfg (st\<lparr>json_buffer := json_buffer st @ line\<rparr>)
          else st)"

section \<open>Regular expressions of the fallback\<close>

text \<open>
  The two patterns are sequences of literals and greedy repetitions of a character class,
  with capture groups. \<open>rmatch\<close> matches a pattern at the head of a text the way a
  backtracking matcher does: a repetition takes as many characters as it can and gives
  them back one at a time. \<open>findall\<close> is \<open>re.findall\<close>: the groups of the successive
  matches, each search starting where the last match ended.
\<close>

datatype cclass = Space | NotRBrace | NotQuote | Digit | HexDash

fun in_class :: "cclass \<Rightarrow> char \<Rightarrow> bool" where
  "in_class Space c = isspace c"
| "in_class NotRBrace c = (c \<noteq> CHR ''}'')"
| "in_class NotQuote c = (c \<noteq> CHR 0x22)"
| "in_class Digit c = ascii_digit c"
| "in_class HexDash c =
     (ascii_digit c \<or> (97 \<le> (of_char c :: nat) \<and> (of_char c :: nat) \<le> 102) \<or> c = CHR ''-'')"

datatype atom = Lit string | Many cclass nat | GroupOpen | GroupClose

fun greedy :: "(string \<Rightarrow> 'a option) \<Rightarrow> string \<Rightarrow> nat \<Rightarrow> nat \<Rightarrow> 'a option" where
  "greedy cont s lo 0 = (if lo = 0 then cont s else None)"
| "greedy cont s lo (Suc k) =
     (if Suc k < lo then None
      else case cont (drop (Suc k) s) of
        Some r \<Rightarrow> Some r
      | None \<Rightarrow> greedy cont s lo k)"

primrec rmatch ::
  "atom list \<Rightarrow> string \<Rightarrow> string list \<Rightarrow> string \<Rightarrow> (string list \<times> string) option" where
  "rmatch [] g caps s = Some (caps, s)"
| "rmatch (a # rs) g caps s =
     (case a of
        Lit l \<Rightarrow> if startswith s l then rmatch rs g caps (drop (length l) s) else None
      | Many c lo \<Rightarrow>
          greedy (\<lambda>s'. rmatch rs g caps s') s lo (length (takeWhile (in_class c) s))
      | GroupOpen \<Rightarrow> rmatch rs s caps s
      | GroupClose \<Rightarrow> rmatch rs g (caps @ [take (length g - length s) g]) s)"

function findall :: "atom list \<Rightarrow> string \<Rightarrow> string list list" where
  "findall rs s =
     (case rmatch rs s [] s of
        Some (caps, rest) \<Rightarrow>
          caps # (if length rest < length s then findall rs rest
                  else case s of [] \<Rightarrow> [] | _ # t \<Rightarrow> findall rs t)
      | None \<Rightarrow> (case s of [] \<Rightarrow> [] | _ # t \<Rightarrow> findall rs t))"
  by pat_completeness auto
termination
  by (relation "measure (\<lambda>(rs, s). length s)") auto

declare findall.simps [simp del]

text \<open>
  \<open>"type"\s*:\s*"tool_use"[^}]*"id"\s*:\s*"([^"]+)"[^}]*"name"\s*:\s*"([^"]+)"\<close>
\<close>

definition tool_use_pattern :: "atom list" where
  "tool_use_pattern =
     [Lit ''\"type\"'', Many Space 0, Lit '':'', Many Space 0, Lit ''\"tool_use\"'',
      Many NotRBrace 0,
      Lit ''\"id\"'', Many Space 0, Lit '':'', Many Space 0,
      Lit ''\"'', GroupOpen, Many NotQuote 1, GroupClose, Lit ''\"'',
      Many NotRBrace 0,
      Lit ''\"name\"'', Many Space 0, Lit '':'', Many Space 0,
      Lit ''\"'', GroupOpen, Many NotQuote 1, GroupClose, Lit ''\"'']"

text \<open>
  \<open>"id"\s*:\s*"(call_\d+_[a-f0-9\-]+)"\s*,\s*"name"\s*:\s*"([^"]+)"\<close>
\<close>

definition call_pattern :: "atom list" where
  "call_pattern =
     [Lit ''\"id\"'', Many Space 0, Lit '':'', Many Space 0,
      Lit ''\"'', GroupOpen, Lit ''call_'', Many Digit 1, Lit ''_'', Many HexDash 1, GroupClose,
      Lit ''\"'', Many Space 0, Lit '','', Many Space 0,
      Lit ''\"name\"'', Many Space 0, Lit '':'', Many Space 0,
      Lit ''\"'', GroupOpen, Many NotQuote 1, GroupClose, Lit ''\"'']"

text \<open>One match of either pattern: the groups are the id and the name, in this order.\<close>

definition handle_match ::
  "monitor_config \<Rightarrow> string list \<Rightarrow> monitor_state \<Rightarrow> exn option \<times> monitor_state" where
  "handle_match cfg caps st =
     (case caps of
        [tool_id, tool_name] \<Rightarrow> handle_tool_call cfg (JStr tool_name) (JStr tool_id) st
      | _ \<Rightarrow> (None, st))"

fun handle_matches ::
  "monitor_config \<Rightarrow> string list list \<Rightarrow> monitor_state \<Rightarrow> exn option \<times> monitor_state" where
  "handle_matches cfg [] st = (None, st)"
| "handle_matches cfg (m # ms) st = and_then (handle_match cfg m st) (handle_matches cfg ms)"

text \<open>
  \<open>_detect_tool_calls_in_line\<close>: the loop over the matches of the first pattern returns
  after its first match; the second pattern is tried only when the first has no match.
\<close>

definition detect_tool_calls_in_line ::
  "monitor_config \<Rightarrow> string \<Rightarrow> monitor_state \<Rightarrow> monitor_state" where
  "detect_tool_calls_in_line cfg line st =
     (case findall tool_use_pattern line of
        m # _ \<Rightarrow> snd (handle_match cfg m st)
      | [] \<Rightarrow> snd (handle_matches cfg (findall call_pattern line) st))"

section \<open>Bracket-balance extraction\<close>

text \<open>
  The scan for the closing brace of the object that opens the text: the index after it,
  or -1. The arguments are the loop variables \<open>i\<close>, \<open>brace_count\<close>, \<open>in_string\<close> and
  \<open>escape_next\<close>.
\<close>

fun scan_braces :: "string \<Rightarrow> nat \<Rightarrow> int \<Rightarrow> bool \<Rightarrow> bool \<Rightarrow> int" where
  "scan_braces [] i brace_count in_string escape_next = - 1"
| "scan_braces (c # cs) i brace_count in_string escape_next =
     (if escape_next then scan_braces cs (i + 1) brace_count in_string False
      else if c = CHR 0x5C \<and> in_string then scan_braces cs (i + 1) brace_count in_string True
      else if c = CHR 0x22 then scan_braces cs (i + 1) brace_count (\<not> in_string) False
      else if \<not> in_string then
        (if c = CHR ''{'' then scan_braces cs (i + 1) (brace_count + 1) in_string False
         else if c = CHR ''}'' then
           (if brace_count - 1 = 0 then int i + 1
            else scan_braces cs (i + 1) (brace_count - 1) in_string False)
         else scan_braces cs (i + 1) brace_count in_string False)
      else scan_braces cs (i + 1) brace_count in_string False)"

definition json_start_patterns :: "string list" where
  "json_start_patterns =
     [''{\"type\":\"assistant\"'', ''{\"type\":\"system\"'', ''{\"type\":\"user\"'']"

fun extract_patterns ::
  "monitor_config \<Rightarrow> string \<Rightarrow> string list \<Rightarrow> monitor_state \<Rightarrow> exn option \<times> monitor_state" where
  "extract_patterns cfg line [] st = (None, st)"
| "extract_patterns cfg line (start_pattern # ps) st =
     (case find_sub line start_pattern of
        None \<Rightarrow> extract_patterns cfg line ps st
      | Some start_idx \<Rightarrow>
          let remaining = drop start_idx line;
              json_end = scan_braces remaining 0 0 False False
          in if 0 < json_end then
               (case json_loads (take (nat json_end) remaining) of
                  None \<Rightarrow> extract_patterns cfg line ps st
                | Some data \<Rightarrow>
                    and_then (handle_json_message cfg data st) (extract_patterns cfg line ps))
             else extract_patterns cfg line ps st)"

definition extract_and_handle_embedded_json ::
  "monitor_config \<Rightarrow> string \<Rightarrow> monitor_state \<Rightarrow> monitor_state" where
  "extract_and_handle_embedded_json cfg line st =
     snd (extract_patterns cfg line json_start_patterns st)"

section \<open>Ingestion of one line\<close>

definition line_markers :: "string list" where
  "line_markers = [''\"type\":\"assistant\"'', ''\"tool_use\"'', ''\"name\"'']"

text \<open>What follows the direct parse when it did not succeed: the regex, then the extraction.\<close>

definition fallback_paths ::
  "monitor_config \<Rightarrow> string \<Rightarrow> monitor_state \<Rightarrow> monitor_state" where
  "fallback_paths cfg cleaned_line st =
     (let st1 = detect_tool_calls_in_line cfg cleaned_line st in
      if list_ex (contains cleaned_line) line_markers
      then extract_and_handle_embedded_json cfg cleaned_line st1
      else st1)"

definition process_output_line_body ::
  "monitor_config \<Rightarrow> string \<Rightarrow> monitor_state \<Rightarrow> exn option \<times> monitor_state" where
  "process_output_line_body cfg line st =
     (let cleaned_line = strip line in
      if cleaned_line = [] then (None, st)
      else
        let st1 = process_json_buffer cfg cleaned_line st in
        if startswith cleaned_line ''{'' \<and> endswith cleaned_line ''}'' then
          (case json_loads cleaned_line of
             Some data \<Rightarrow> handle_json_message cfg data st1
           | None \<Rightarrow> (None, fallback_paths cfg cleaned_line st1))
        else (None, fallback_paths cfg cleaned_line st1))"

text \<open>\<open>_process_output_line\<close>: the body under \<open>except Exception: pass\<close>.\<close>

definition process_output_line ::
  "monitor_config \<Rightarrow> string \<Rightarrow> monitor_state \<Rightarrow> exn option \<times> monitor_state" where
  "process_output_line cfg line st =
     (case process_output_line_body cfg line st of (e, st') \<Rightarrow> (None, st'))"

section \<open>Offline analysis and statistics\<close>

fun split_on :: "char \<Rightarrow> string \<Rightarrow> string list" where
  "split_on sep [] = [[]]"
| "split_on sep (c # cs) =
     (if c = sep then [] # split_on sep cs
      else case split_on sep cs of
        [] \<Rightarrow> [[c]]
      | l # ls \<Rightarrow> (c # l) # ls)"

record cost_estimation =
  est_current_cost_usd :: rat
  est_total_input_tokens :: rat
  est_total_output_tokens :: rat

record analysis_result =
  analysis_type :: string
  processed_lines :: nat
  detected_tool_calls :: int
  tool_breakdown :: "(json \<times> int) list"
  id_format_distribution :: "(string \<times> int) list"
  cost_estimation :: cost_estimation

fun analyze_lines ::
  "monitor_config \<Rightarrow> string list \<Rightarrow> nat \<times> monitor_state \<Rightarrow> nat \<times> monitor_state" where
  "analyze_lines cfg [] (processed, st) = (processed, st)"
| "analyze_lines cfg (line # lines) (processed, st) =
     (if strip line \<noteq> []
      then analyze_lines cfg lines
             (processed + 1, snd (process_output_line cfg (strip line) st))
      else analyze_lines cfg lines (processed, st))"

definition analyze_completed_output ::
  "monitor_config \<Rightarrow> string \<Rightarrow> monitor_state \<Rightarrow> analysis_result \<times> monitor_state" where
  "analyze_completed_output cfg output_text st =
     (let st0 = st\<lparr>tool_calls := [], total_calls := 0, id_format_stats := []\<rparr>;
          (processed, st1) = analyze_lines cfg (split_on CHR 0x0A output_text) (0, st0)
      in (\<lparr>analysis_type = ''post_process'',
           processed_lines = processed,
           detected_tool_calls = total_calls st1,
           tool_breakdown = tool_calls st1,
           id_format_distribution = id_format_stats st1,
           cost_estimation =
             \<lparr>est_current_cost_usd = current_cost_usd st1,
              est_total_input_tokens = total_input_tokens st1,
              est_total_output_tokens = total_output_tokens st1\<rparr>\<rparr>,
          st1))"

record statistics =
  stat_tool_calls :: "(json \<times> int) list"
  stat_total_tool_calls :: int
  stat_max_total_calls :: "int option"
  stat_tool_limits :: "(string \<times> int) list"
  stat_id_format_stats :: "(string \<times> int) list"
  stat_current_cost_usd :: rat
  stat_max_cost_usd :: rat
  stat_total_input_tokens :: rat
  stat_total_output_tokens :: rat
  cost_utilization :: rat
  tool_utilization :: rat

definition get_statistics :: "monitor_config \<Rightarrow> monitor_state \<Rightarrow> statistics" where
  "get_statistics cfg st =
     \<lparr>stat_tool_calls = tool_calls st,
      stat_total_tool_calls = total_calls st,
      stat_max_total_calls = max_total_calls cfg,
      stat_tool_limits = tool_limits cfg,
      stat_id_format_stats = id_format_stats st,
      stat_current_cost_usd = current_cost_usd st,
      stat_max_cost_usd = max_cost_usd cfg,
      stat_total_input_tokens = total_input_tokens st,
      stat_total_output_tokens = total_output_tokens st,
      cost_utilization =
        (if 0 < max_cost_usd cfg then (current_cost_usd st / max_cost_usd cfg) * 100 else 0),
      tool_utilization =
        (case max_total_calls cfg of
           None \<Rightarrow> 0
         | Some m \<Rightarrow> if m \<noteq> 0 then (of_int (total_calls st) / of_int m) * 100 else 0)\<rparr>"

section \<open>Runs of the monitor\<close>

text \<open>
  The states a monitor can be in: it starts in \<open>init_state\<close>, and each operation (a line
  ingested, a tool-use or usage event handled, a decoded message handled, a transcript
  analysed) leads from one state to the next.
\<close>

inductive reachable :: "monitor_config \<Rightarrow> monitor_state \<Rightarrow> bool" for cfg where
  init: "reachable cfg init_state"
| ingest: "reachable cfg st \<Longrightarrow> reachable cfg (snd (process_output_line cfg line st))"
| tool: "reachable cfg st \<Longrightarrow> reachable cfg (snd (handle_tool_call cfg tool_name tool_id st))"
| usage: "reachable cfg st \<Longrightarrow> reachable cfg (snd (handle_usage_data cfg u model st))"
| message: "reachable cfg st \<Longrightarrow> reachable cfg (snd (handle_json_message cfg data st))"
| analyze: "reachable cfg st \<Longrightarrow> reachable cfg (snd (analyze_completed_output cfg text st))"

section \<open>Sums of counters, and the runs used as examples\<close>

text \<open>The sum of the counts of a counter table.\<close>

definition sum_counts :: "('k \<times> int) list \<Rightarrow> int" where
  "sum_counts d = sum_list (map snd d)"

text \<open>The count a table holds for a key: 0 for a key that is absent.\<close>

definition count_of :: "('k \<times> int) list \<Rightarrow> 'k \<Rightarrow> int" where
  "count_of d k = (case map_of d k of None \<Rightarrow> 0 | Some v \<Rightarrow> v)"

text \<open>
  A monitor as its constructor builds it by default (no tool limits, no total cap, a cost
  cap of 10 USD), and one with a total-call cap of 2.
\<close>

definition default_config :: monitor_config where
  "default_config = \<lparr>tool_limits = [], max_total_calls = None, max_cost_usd = 10\<rparr>"

definition capped_config :: monitor_config where
  "capped_config = \<lparr>tool_limits = [], max_total_calls = Some 2, max_cost_usd = 10\<rparr>"

text \<open>An assistant message with one tool-use item, on one line (89 characters).\<close>

definition tool_use_line :: string where
  "tool_use_line =
     ''{\"type\":\"assistant\",\"message\":{\"content\":[{\"type\":\"tool_use\",\"id\":\"t_1\",\"name\":\"Bash\"}]}}''"


text \<open>
  A usage record of one million input tokens, a monitor with a cost cap of 2 USD, and the
  state of that monitor after this usage under the baseline model: the run is stopped by
  its cost. \<open>one_call_state\<close> is a default monitor after one counted Bash call.
\<close>

definition million_input_usage :: json where
  "million_input_usage = JObj [(''input_tokens'', JNum 1000000), (''output_tokens'', JNum 0)]"

definition low_cost_config :: monitor_config where
  "low_cost_config = \<lparr>tool_limits = [], max_total_calls = None, max_cost_usd = 2\<rparr>"

definition stopped_by_cost :: monitor_state where
  "stopped_by_cost =
     snd (handle_usage_data low_cost_config million_input_usage
            (JStr ''claude-3-5-sonnet-20241022'') init_state)"

definition one_call_state :: monitor_state where
  "one_call_state = snd (handle_tool_call default_config (JStr ''Bash'') (JStr ''t_1'') init_state)"

text \<open>A monitor with a total cap of 2 after three Bash calls: stopped at its cap.\<close>

definition three_calls_state :: monitor_state where
  "three_calls_state =
     snd (handle_tool_call capped_config (JStr ''Bash'') (JStr ''t_3'')
       (snd (handle_tool_call capped_config (JStr ''Bash'') (JStr ''t_2'')
          (snd (handle_tool_call capped_config (JStr ''Bash'') (JStr ''t_1'') init_state)))))"






section \<open>Properties carried through the parsing pipeline\<close>

text \<open>
  Every path of the pipeline changes the counters only through the two event handlers,
  and the buffer only in the accumulation step. A property of states that the handlers
  keep is therefore kept by each path; these lemmas are the common ground of the
  invariants below.
\<close>

lemma and_then_pres:
  assumes "P (snd r)" and "\<And>s. P s \<Longrightarrow> P (snd (f s))"
  shows "P (snd (and_then r f))"
  using assms by (cases r) (auto simp: and_then_def split: option.splits)

lemma handle_content_items_pres:
  assumes tool: "\<And>n i s. P s \<Longrightarrow> P (snd (handle_tool_call cfg n i s))"
  shows "P st \<Longrightarrow> P (snd (handle_content_items cfg items st))"
proof (induction items arbitrary: st)
  case Nil
  then show ?case by simp
next
  case (Cons item items)
  show ?case
  proof (cases item)
    case (JObj it)
    then show ?thesis
      using Cons tool by (auto simp: Let_def intro!: and_then_pres [where P = P])
  qed (use Cons in auto)
qed

lemma handle_json_message_pres:
  assumes tool: "\<And>n i s. P s \<Longrightarrow> P (snd (handle_tool_call cfg n i s))"
    and usage: "\<And>u m s. P s \<Longrightarrow> P (snd (handle_usage_data cfg u m s))"
    and st: "P st"
  shows "P (snd (handle_json_message cfg data st))"
proof -
  have items: "P (snd (handle_content_items cfg items s))" if "P s" for items s
    using handle_content_items_pres [of P cfg, OF tool that] .
  show ?thesis
    unfolding handle_json_message_def
    using st by (auto simp: Let_def split: json.splits intro!: and_then_pres [where P = P] items usage)
qed

lemma handle_matches_pres:
  assumes tool: "\<And>n i s. P s \<Longrightarrow> P (snd (handle_tool_call cfg n i s))"
  shows "P st \<Longrightarrow> P (snd (handle_matches cfg ms st))"
proof (induction ms arbitrary: st)
  case Nil
  then show ?case by simp
next
  case (Cons m ms)
  have "P (snd (handle_match cfg m st))"
    using Cons.prems tool by (auto simp: handle_match_def split: list.splits)
  then show ?case
    using Cons.IH by (auto intro!: and_then_pres [where P = P])
qed

lemma detect_tool_calls_in_line_pres:
  assumes tool: "\<And>n i s. P s \<Longrightarrow> P (snd (handle_tool_call cfg n i s))"
    and st: "P st"
  shows "P (detect_tool_calls_in_line cfg line st)"
proof (cases "findall tool_use_pattern line")
  case Nil
  then show ?thesis
    using handle_matches_pres [of P cfg, OF tool st]
    by (simp add: detect_tool_calls_in_line_def)
next
  case (Cons m ms)
  then show ?thesis
    using handle_matches_pres [of P cfg st "[m]", OF tool st]
    by (simp add: detect_tool_calls_in_line_def and_then_def split: prod.splits option.splits)
qed

lemma extract_patterns_pres:
  assumes tool: "\<And>n i s. P s \<Longrightarrow> P (snd (handle_tool_call cfg n i s))"
    and usage: "\<And>u m s. P s \<Longrightarrow> P (snd (handle_usage_data cfg u m s))"
  shows "P st \<Longrightarrow> P (snd (extract_patterns cfg line ps st))"
proof (induction ps arbitrary: st)
  case Nil
  then show ?case by simp
next
  case (Cons p ps)
  have msg: "P (snd (handle_json_message cfg data st))" for data
    using handle_json_message_pres [of P cfg, OF tool usage Cons.prems] .
  show ?case
    using Cons msg by (auto simp: Let_def split: option.splits intro!: and_then_pres [where P = P])
qed

lemma fallback_paths_pres:
  assumes tool: "\<And>n i s. P s \<Longrightarrow> P (snd (handle_tool_call cfg n i s))"
    and usage: "\<And>u m s. P s \<Longrightarrow> P (snd (handle_usage_data cfg u m s))"
    and st: "P st"
  shows "P (fallback_paths cfg line st)"
proof -
  have d: "P (detect_tool_calls_in_line cfg line st)"
    using detect_tool_calls_in_line_pres [of P cfg, OF tool st] .
  show ?thesis
    using d extract_patterns_pres [of P cfg, OF tool usage d]
    by (simp add: fallback_paths_def Let_def extract_and_handle_embedded_json_def)
qed

lemma try_parse_buffered_json_pres:
  assumes tool: "\<And>n i s. P s \<Longrightarrow> P (snd (handle_tool_call cfg n i s))"
    and usage: "\<And>u m s. P s \<Longrightarrow> P (snd (handle_usage_data cfg u m s))"
    and buf: "\<And>s b f. P s \<Longrightarrow> P (s\<lparr>json_buffer := b, in_json_block := f\<rparr>)"
    and st: "P st"
  shows "P (try_parse_buffered_json cfg st)"
proof -
  have msg: "P (snd (handle_json_message cfg data st))" for data
    using handle_json_message_pres [of P cfg, OF tool usage st] .
  show ?thesis
  proof (cases "json_loads (json_buffer st)")
    case None
    then show ?thesis
      using st buf [OF st] by (simp add: try_parse_buffered_json_def)
  next
    case (Some data)
    obtain e s1 where h: "handle_json_message cfg data st = (e, s1)"
      by (cases "handle_json_message cfg data st")
    have "P s1"
      using msg [of data] h by simp
    then show ?thesis
      using st Some h buf [of s1]
      by (cases e) (simp_all add: try_parse_buffered_json_def)
  qed
qed

lemma process_json_buffer_pres:
  assumes tool: "\<And>n i s. P s \<Longrightarrow> P (snd (handle_tool_call cfg n i s))"
    and usage: "\<And>u m s. P s \<Longrightarrow> P (snd (handle_usage_data cfg u m s))"
    and buf: "\<And>s b f. P s \<Longrightarrow> P (s\<lparr>json_buffer := b, in_json_block := f\<rparr>)"
    and st: "P st"
  shows "P (process_json_buffer cfg line st)"
proof -
  have tb: "P (try_parse_buffered_json cfg s)" if "P s" for s
    using try_parse_buffered_json_pres [of P cfg, OF tool usage buf that] .
  have msg: "P (snd (handle_json_message cfg data s))" if "P s" for data s
    using handle_json_message_pres [of P cfg, OF tool usage that] .
  have app: "P (st\<lparr>json_buffer := json_buffer st @ line\<rparr>)"
    using buf [where s = st and b = "json_buffer st @ line" and f = "in_json_block st"] st
    by simp
  have st1: "P (if json_buffer st \<noteq> [] then try_parse_buffered_json cfg st else st)"
    using st tb by simp
  have direct: "P (snd (snd (try_parse_direct_json cfg j s)))" if "P s" for j s
  proof (cases "json_loads j")
    case None
    then show ?thesis
      using that by (simp add: try_parse_direct_json_def)
  next
    case (Some data)
    then show ?thesis
      using msg [OF that, of data]
      by (cases "handle_json_message cfg data s") (simp add: try_parse_direct_json_def)
  qed
  show ?thesis
  proof (cases "first_found line json_starts")
    case None
    then show ?thesis
      using st tb [OF app] by (simp add: process_json_buffer_def)
  next
    case (Some start_pos)
    let ?s1 = "if json_buffer st \<noteq> [] then try_parse_buffered_json cfg st else st"
    let ?pj = "drop start_pos line"
    have seed: "P (?s1\<lparr>json_buffer := ?pj, in_json_block := True\<rparr>)"
      using buf [OF st1] .
    have d: "P (snd (snd (try_parse_direct_json cfg ?pj ?s1)))"
      using direct [OF st1] .
    have seed2: "P ((snd (snd (try_parse_direct_json cfg ?pj ?s1)))
                     \<lparr>json_buffer := ?pj, in_json_block := True\<rparr>)"
      using buf [OF d] .
    obtain e ok s2 where t: "try_parse_direct_json cfg ?pj ?s1 = (e, ok, s2)"
      by (cases "try_parse_direct_json cfg ?pj ?s1") auto
    have s2: "P s2" and s2': "P (s2\<lparr>json_buffer := ?pj, in_json_block := True\<rparr>)"
      using d seed2 t by simp_all
    show ?thesis
      unfolding process_json_buffer_def Some option.case Let_def
      using seed s2 s2' t
      by (cases e; cases ok) simp_all
  qed
qed

lemma process_output_line_pres:
  assumes tool: "\<And>n i s. P s \<Longrightarrow> P (snd (handle_tool_call cfg n i s))"
    and usage: "\<And>u m s. P s \<Longrightarrow> P (snd (handle_usage_data cfg u m s))"
    and buf: "\<And>s b f. P s \<Longrightarrow> P (s\<lparr>json_buffer := b, in_json_block := f\<rparr>)"
    and st: "P st"
  shows "P (snd (process_output_line cfg line st))"
proof -
  have pb: "P (process_json_buffer cfg l st)" for l
    using process_json_buffer_pres [of P cfg, OF tool usage buf st] .
  have msg: "P (snd (handle_json_message cfg data s))" if "P s" for data s
    using handle_json_message_pres [of P cfg, OF tool usage that] .
  have fb: "P (fallback_paths cfg l s)" if "P s" for l s
    using fallback_paths_pres [of P cfg, OF tool usage that] .
  let ?c = "strip line"
  let ?s1 = "process_json_buffer cfg ?c st"
  have body: "P (snd (process_output_line_body cfg line st))"
  proof (cases "?c = []")
    case True
    then show ?thesis
      using st by (simp add: process_output_line_body_def)
  next
    case False
    show ?thesis
    proof (cases "startswith ?c ''{'' \<and> endswith ?c ''}''")
      case True
      then show ?thesis
        using False msg [OF pb [of ?c]] fb [OF pb [of ?c]]
        by (cases "json_loads ?c") (simp_all add: process_output_line_body_def Let_def)
    next
      case False
      then show ?thesis
        using \<open>?c \<noteq> []\<close> fb [OF pb [of ?c], of ?c]
        by (auto simp add: process_output_line_body_def Let_def)
    qed
  qed
  then show ?thesis
    by (cases "process_output_line_body cfg line st") (simp add: process_output_line_def)
qed

lemma analyze_lines_pres:
  assumes tool: "\<And>n i s. P s \<Longrightarrow> P (snd (handle_tool_call cfg n i s))"
    and usage: "\<And>u m s. P s \<Longrightarrow> P (snd (handle_usage_data cfg u m s))"
    and buf: "\<And>s b f. P s \<Longrightarrow> P (s\<lparr>json_buffer := b, in_json_block := f\<rparr>)"
  shows "P st \<Longrightarrow> P (snd (analyze_lines cfg lines (n, st)))"
proof (induction lines arbitrary: n st)
  case Nil
  then show ?case by simp
next
  case (Cons line lines)
  have "P (snd (process_output_line cfg (strip line) st))"
    using process_output_line_pres [of P cfg, OF tool usage buf Cons.prems] .
  then show ?case
    using Cons by auto
qed

section \<open>Counter tables\<close>

lemma sum_counts_dict_set:
  "map_of d k = Some old \<Longrightarrow> sum_counts (dict_set d k v) = sum_counts d - old + v"
  by (induction d) (auto simp: sum_counts_def)

lemma dd_read_sum: "sum_counts (snd (dd_read d k)) = sum_counts d"
  by (simp add: dd_read_def sum_counts_def split: option.splits)

lemma dd_read_map_of: "map_of (snd (dd_read d k)) k = Some (fst (dd_read d k))"
  by (simp add: dd_read_def map_of_eq_None_iff map_add_Some_iff split: option.splits)

lemma dd_read_bump_sum:
  "sum_counts (dict_set (snd (dd_read d k)) k (fst (dd_read d k) + 1)) = sum_counts d + 1"
  using sum_counts_dict_set [OF dd_read_map_of [of d k]] dd_read_sum [of d k] by simp


lemma count_of_dd_read: "count_of (snd (dd_read d k)) k' = count_of d k'"
  by (auto simp: dd_read_def count_of_def map_add_def split: option.splits if_splits)

lemma fst_dd_read: "fst (dd_read d k) = count_of d k"
  by (simp add: dd_read_def count_of_def split: option.splits)

lemma count_of_dict_set:
  "count_of (dict_set d k v) k' = (if k' = k then v else count_of d k')"
  by (induction d) (auto simp: count_of_def)

section \<open>What one tool-use event does\<close>

text \<open>The five ways \<open>_handle_tool_call\<close> can end, each with the state it leaves.\<close>

lemma handle_tool_call_cases:
  obtains
    (bad_id) e where
      "detect_tool_id_format i = Inl e"
      "handle_tool_call cfg n i st = (Some e, st)"
  | (total_cap) f m where
      "detect_tool_id_format i = Inr f"
      "reached (max_total_calls cfg) (total_calls st) = Some m"
      "handle_tool_call cfg n i st =
         (None, st\<lparr>id_format_stats := dd_incr (id_format_stats st) f,
                    should_stop := True,
                    stop_reasons := stop_reasons st @ [TotalCallsReached m]\<rparr>)"
  | (unhashable) f where
      "detect_tool_id_format i = Inr f"
      "reached (max_total_calls cfg) (total_calls st) = None"
      "py_key n = None"
      "handle_tool_call cfg n i st =
         (Some TypeError, st\<lparr>id_format_stats := dd_incr (id_format_stats st) f\<rparr>)"
  | (tool_limit) f k l where
      "detect_tool_id_format i = Inr f"
      "reached (max_total_calls cfg) (total_calls st) = None"
      "py_key n = Some k"
      "handle_tool_call cfg n i st =
         (None, st\<lparr>id_format_stats := dd_incr (id_format_stats st) f,
                    tool_calls := snd (dd_read (tool_calls st) k),
                    should_stop := True,
                    stop_reasons := stop_reasons st @ [ToolLimitReached n l]\<rparr>)"
  | (counted) f k where
      "detect_tool_id_format i = Inr f"
      "reached (max_total_calls cfg) (total_calls st) = None"
      "py_key n = Some k"
      "handle_tool_call cfg n i st =
         (None, st\<lparr>id_format_stats := dd_incr (id_format_stats st) f,
                    tool_calls := dict_set (snd (dd_read (tool_calls st) k)) k
                                    (fst (dd_read (tool_calls st) k) + 1),
                    total_calls := total_calls st + 1\<rparr>)"
proof (cases "detect_tool_id_format i")
  case (Inl e)
  then show ?thesis
    using bad_id by (simp add: handle_tool_call_def)
next
  case (Inr f)
  show ?thesis
  proof (cases "reached (max_total_calls cfg) (total_calls st)")
    case (Some m)
    then show ?thesis
      using Inr total_cap by (simp add: handle_tool_call_def notify_stop_def)
  next
    case None
    show ?thesis
    proof (cases "py_key n")
      case no_key: None
      then show ?thesis
        using Inr None unhashable by (simp add: handle_tool_call_def)
    next
      case (Some k)
      obtain c tc where r: "dd_read (tool_calls st) k = (c, tc)"
        by (cases "dd_read (tool_calls st) k")
      show ?thesis
      proof (cases "reached (case n of JStr x \<Rightarrow> map_of (tool_limits cfg) x | _ \<Rightarrow> None) c")
        case no_limit: None
        then show ?thesis
          using Inr None Some r counted [of f k]
          by (simp add: handle_tool_call_def Let_def)
      next
        case (Some l)
        then show ?thesis
          using Inr None \<open>py_key n = Some k\<close> r tool_limit [of f k l]
          by (simp add: handle_tool_call_def Let_def notify_stop_def)
      qed
    qed
  qed
qed

lemma handle_tool_call_total:
  assumes "total_calls st = sum_counts (tool_calls st)"
  shows "total_calls (snd (handle_tool_call cfg n i st))
         = sum_counts (tool_calls (snd (handle_tool_call cfg n i st)))"
  using assms
  by (cases rule: handle_tool_call_cases [where i = i and cfg = cfg and st = st and n = n])
     (simp_all add: dd_read_sum dd_read_bump_sum)


lemma handle_tool_call_should_stop:
  assumes "should_stop st"
  shows "should_stop (snd (handle_tool_call cfg n i st))"
  using assms
  by (cases rule: handle_tool_call_cases [where i = i and cfg = cfg and st = st and n = n]) simp_all


section \<open>What one usage event does\<close>

lemma handle_usage_data_counters:
  "tool_calls (snd (handle_usage_data cfg u m st)) = tool_calls st
   \<and> total_calls (snd (handle_usage_data cfg u m st)) = total_calls st
   \<and> id_format_stats (snd (handle_usage_data cfg u m st)) = id_format_stats st
   \<and> json_buffer (snd (handle_usage_data cfg u m st)) = json_buffer st
   \<and> in_json_block (snd (handle_usage_data cfg u m st)) = in_json_block st"
  by (auto simp: handle_usage_data_def charge_usage_def Let_def notify_stop_def
           split: json.splits option.splits sum.splits)

lemma handle_usage_data_should_stop:
  "should_stop st \<Longrightarrow> should_stop (snd (handle_usage_data cfg u m st))"
  by (auto simp: handle_usage_data_def charge_usage_def Let_def notify_stop_def
           split: json.splits option.splits sum.splits)

section \<open>Offline analysis keeps what the handlers keep\<close>

lemma analyze_completed_output_pres:
  assumes tool: "\<And>n i s. P s \<Longrightarrow> P (snd (handle_tool_call cfg n i s))"
    and usage: "\<And>u m s. P s \<Longrightarrow> P (snd (handle_usage_data cfg u m s))"
    and buf: "\<And>s b f. P s \<Longrightarrow> P (s\<lparr>json_buffer := b, in_json_block := f\<rparr>)"
    and st: "P (st\<lparr>tool_calls := [], total_calls := 0, id_format_stats := []\<rparr>)"
  shows "P (snd (analyze_completed_output cfg text st))"
proof -
  let ?st0 = "st\<lparr>tool_calls := [], total_calls := 0, id_format_stats := []\<rparr>"
  let ?r = "analyze_lines cfg (split_on CHR 0x0A text) (0, ?st0)"
  have "P (snd ?r)"
    using analyze_lines_pres [of P cfg, OF tool usage buf st] .
  then show ?thesis
    by (cases ?r) (simp add: analyze_completed_output_def Let_def)
qed

lemma sum_counts_Nil: "sum_counts [] = 0"
  by (simp add: sum_counts_def)

lemma detect_tool_id_format_str: "\<exists>f. detect_tool_id_format (JStr s) = Inr f"
  by (simp add: detect_tool_id_format_def)

section \<open>The total is the sum of the per-tool counts\<close>

lemma reachable_total_calls:
  "reachable cfg st \<Longrightarrow> total_calls st = sum_counts (tool_calls st)"
proof (induction rule: reachable.induct)
  case init
  show ?case by (simp add: init_state_def sum_counts_Nil)
next
  case (ingest st line)
  show ?case
    by (rule process_output_line_pres
          [where P = "\<lambda>s. total_calls s = sum_counts (tool_calls s)"])
       (simp_all add: handle_tool_call_total handle_usage_data_counters ingest.IH)
next
  case (tool st tool_name tool_id)
  then show ?case by (simp add: handle_tool_call_total)
next
  case (usage st u model)
  then show ?case by (simp add: handle_usage_data_counters)
next
  case (message st data)
  show ?case
    by (rule handle_json_message_pres
          [where P = "\<lambda>s. total_calls s = sum_counts (tool_calls s)"])
       (simp_all add: handle_tool_call_total handle_usage_data_counters message.IH)
next
  case (analyze st transcript)
  show ?case
    by (rule analyze_completed_output_pres
          [where P = "\<lambda>s. total_calls s = sum_counts (tool_calls s)"])
       (simp_all add: handle_tool_call_total handle_usage_data_counters sum_counts_Nil)
qed

text \<open>
  C5. In every state that a sequence of monitor operations reaches from the initial
  state, \<open>total_calls\<close> is the sum of the per-tool counts, and the statistics snapshot
  reports exactly these two values, so the same equation holds of the snapshot.
\<close>

theorem total_calls_is_sum_of_tool_counts:
  assumes "reachable cfg st"
  shows "total_calls st = sum_counts (tool_calls st)
         \<and> stat_total_tool_calls (get_statistics cfg st) = total_calls st
         \<and> stat_tool_calls (get_statistics cfg st) = tool_calls st
         \<and> stat_total_tool_calls (get_statistics cfg st)
             = sum_counts (stat_tool_calls (get_statistics cfg st))"
  using reachable_total_calls [OF assms] by (simp add: get_statistics_def)

theorem total_calls_is_sum_of_tool_counts_witness:
  "reachable default_config (snd (process_output_line default_config tool_use_line init_state))
   \<and> total_calls (snd (process_output_line default_config tool_use_line init_state))
       = sum_counts (tool_calls (snd (process_output_line default_config tool_use_line init_state)))"
proof -
  have r: "reachable default_config
             (snd (process_output_line default_config tool_use_line init_state))"
    by (rule reachable.ingest [OF reachable.init])
  show ?thesis
    using r total_calls_is_sum_of_tool_counts [OF r] by simp
qed

section \<open>The id-format distribution counts every event\<close>



section \<open>Three calls under a total cap of two\<close>

lemma first_two_counted:
  assumes cap: "max_total_calls cfg = Some 2"
    and no_limit: "map_of (tool_limits cfg) ''Bash'' = None"
  shows "\<exists>ids. snd (handle_tool_call cfg (JStr ''Bash'') (JStr i2)
                 (snd (handle_tool_call cfg (JStr ''Bash'') (JStr i1) init_state)))
         = init_state\<lparr>tool_calls := [(JStr ''Bash'', 2)], total_calls := 2,
                        id_format_stats := ids\<rparr>"
proof -
  obtain f1 f2 where f: "detect_tool_id_format (JStr i1) = Inr f1"
      "detect_tool_id_format (JStr i2) = Inr f2"
    using detect_tool_id_format_str by blast
  show ?thesis
    using cap no_limit f
    by (simp add: handle_tool_call_def Let_def reached_def dd_read_def init_state_def)
qed

lemma call_at_cap_rejected:
  assumes cap: "max_total_calls cfg = Some m" and st: "m \<le> total_calls st"
  shows "\<exists>ids. snd (handle_tool_call cfg n (JStr i) st)
         = st\<lparr>id_format_stats := ids, should_stop := True,
                stop_reasons := stop_reasons st @ [TotalCallsReached m]\<rparr>"
proof -
  obtain f where f: "detect_tool_id_format (JStr i) = Inr f"
    using detect_tool_id_format_str by blast
  show ?thesis
    using cap st f
    by (intro exI [where x = "dd_incr (id_format_stats st) f"])
       (simp add: handle_tool_call_def Let_def reached_def notify_stop_def)
qed

lemma three_bash_calls:
  fixes cfg :: monitor_config and i1 i2 i3 :: string
  assumes cap: "max_total_calls cfg = Some 2"
    and no_limit: "map_of (tool_limits cfg) ''Bash'' = None"
  defines "st2 \<equiv> snd (handle_tool_call cfg (JStr ''Bash'') (JStr i2)
                    (snd (handle_tool_call cfg (JStr ''Bash'') (JStr i1) init_state)))"
  defines "st3 \<equiv> snd (handle_tool_call cfg (JStr ''Bash'') (JStr i3) st2)"
  shows "tool_calls st3 = [(JStr ''Bash'', 2)] \<and> total_calls st3 = 2 \<and> should_stop st3
         \<and> tool_calls st2 = [(JStr ''Bash'', 2)] \<and> total_calls st2 = 2
         \<and> \<not> should_stop st2
         \<and> stop_reasons st3 = [TotalCallsReached 2]"
proof -
  obtain ids where s2: "st2 = init_state\<lparr>tool_calls := [(JStr ''Bash'', 2)],
      total_calls := 2, id_format_stats := ids\<rparr>"
    unfolding st2_def using first_two_counted [OF cap no_limit] by blast
  have "2 \<le> total_calls st2"
    by (simp add: s2)
  then obtain ids' where s3: "st3 = st2\<lparr>id_format_stats := ids', should_stop := True,
      stop_reasons := stop_reasons st2 @ [TotalCallsReached 2]\<rparr>"
    unfolding st3_def using call_at_cap_rejected [OF cap] by blast
  show ?thesis
    by (simp add: s3 s2 init_state_def)
qed

text \<open>
  C4. With a total-call cap of 2 and no limit on Bash, three Bash tool-use events in a
  row from the initial state (whatever their ids) leave the per-tool count of Bash at 2,
  \<open>total_calls\<close> at 2 and \<open>should_stop\<close> set. The third event changes no call counter:
  after the second the counters already have these values and \<open>should_stop\<close> is still
  unset; the third is notified as a breach of the total cap.
\<close>

theorem three_bash_calls_under_cap_two:
  assumes "max_total_calls cfg = Some 2"
    and "map_of (tool_limits cfg) ''Bash'' = None"
  shows "let bash = (\<lambda>tool_id st. snd (handle_tool_call cfg (JStr ''Bash'') (JStr tool_id) st));
             st2 = bash i2 (bash i1 init_state);
             st3 = bash i3 st2
         in tool_calls st3 = [(JStr ''Bash'', 2)] \<and> total_calls st3 = 2 \<and> should_stop st3
            \<and> tool_calls st2 = [(JStr ''Bash'', 2)] \<and> total_calls st2 = 2
            \<and> \<not> should_stop st2
            \<and> stop_reasons st3 = [TotalCallsReached 2]"
  unfolding Let_def using three_bash_calls [OF assms] by simp

theorem three_bash_calls_under_cap_two_witness:
  "max_total_calls capped_config = Some 2
   \<and> map_of (tool_limits capped_config) ''Bash'' = None
   \<and> (let bash = (\<lambda>tool_id st.
                     snd (handle_tool_call capped_config (JStr ''Bash'') (JStr tool_id) st));
           st3 = bash ''t_3'' (bash ''t_2'' (bash ''t_1'' init_state))
       in tool_calls st3 = [(JStr ''Bash'', 2)] \<and> total_calls st3 = 2 \<and> should_stop st3)"
proof -
  have c: "max_total_calls capped_config = Some 2"
    and l: "map_of (tool_limits capped_config) ''Bash'' = None"
    by (simp_all add: capped_config_def)
  show ?thesis
    using c l three_bash_calls_under_cap_two
                [OF c l, where ?i1.0 = "''t_1''" and ?i2.0 = "''t_2''" and ?i3.0 = "''t_3''"]
    by (simp add: Let_def)
qed



section \<open>The cost of a usage event\<close>







section \<open>Events that arrive after the stop flag is set\<close>

lemma handle_tool_call_at_cap:
  assumes "max_total_calls cfg = Some m" and "m \<le> total_calls st"
  shows "tool_calls (snd (handle_tool_call cfg n i st)) = tool_calls st
         \<and> total_calls (snd (handle_tool_call cfg n i st)) = total_calls st"
  using assms
  by (cases rule: handle_tool_call_cases [where i = i and cfg = cfg and st = st and n = n])
     (simp_all add: reached_def)

lemma handle_tool_call_total_mono:
  "total_calls st \<le> total_calls (snd (handle_tool_call cfg n i st))"
  by (cases rule: handle_tool_call_cases [where i = i and cfg = cfg and st = st and n = n])
     simp_all

lemma handle_tool_call_count_mono:
  "count_of (tool_calls st) k \<le> count_of (tool_calls (snd (handle_tool_call cfg n i st))) k"
  by (cases rule: handle_tool_call_cases [where i = i and cfg = cfg and st = st and n = n])
     (simp_all add: count_of_dd_read count_of_dict_set fst_dd_read)

lemma handle_tool_call_rejected:
  assumes "total_calls (snd (handle_tool_call cfg n i st)) = total_calls st"
  shows "count_of (tool_calls (snd (handle_tool_call cfg n i st))) k = count_of (tool_calls st) k"
  using assms
  by (cases rule: handle_tool_call_cases [where i = i and cfg = cfg and st = st and n = n])
     (simp_all add: count_of_dd_read)

lemma one_call_state_eq:
  "one_call_state = init_state\<lparr>tool_calls := [(JStr ''Bash'', 1)], total_calls := 1,
                                id_format_stats := [(''simplified'', 1)]\<rparr>"
  by (simp add: one_call_state_def handle_tool_call_def detect_tool_id_format_def
        last_segment_def isdigit_def isdigit_char_def default_config_def reached_def
        dd_incr_def dd_read_def init_state_def Let_def)

lemma stopped_by_cost_eq:
  "stopped_by_cost = init_state\<lparr>total_input_tokens := 1000000, current_cost_usd := 3,
       should_stop := True, stop_reasons := [CostReached 3 2]\<rparr>"
  by (simp add: stopped_by_cost_def million_input_usage_def handle_usage_data_def
        dict_get_def charge_usage_def lookup_pricing_def pricing_def low_cost_config_def
        notify_stop_def init_state_def Let_def)

text \<open>
  C2, as the claim states it, fails: a monitor stopped by its cost cap still counts the
  next Bash call, and the next usage event still adds its tokens and its cost.
\<close>

theorem counters_move_after_stop_counterexample:
  "should_stop stopped_by_cost
   \<and> total_calls stopped_by_cost = 0
   \<and> total_calls (snd (handle_tool_call low_cost_config (JStr ''Bash'') (JStr ''t_1'')
                        stopped_by_cost)) = 1
   \<and> tool_calls (snd (handle_tool_call low_cost_config (JStr ''Bash'') (JStr ''t_1'')
                        stopped_by_cost)) = [(JStr ''Bash'', 1)]
   \<and> current_cost_usd stopped_by_cost = 3
   \<and> current_cost_usd (snd (handle_usage_data low_cost_config million_input_usage
                         (JStr ''claude-3-5-sonnet-20241022'') stopped_by_cost)) = 6
   \<and> total_input_tokens (snd (handle_usage_data low_cost_config million_input_usage
                         (JStr ''claude-3-5-sonnet-20241022'') stopped_by_cost)) = 2000000"
  by (simp add: stopped_by_cost_eq million_input_usage_def handle_usage_data_def
        dict_get_def charge_usage_def lookup_pricing_def pricing_def low_cost_config_def
        notify_stop_def init_state_def Let_def
        handle_tool_call_def detect_tool_id_format_def last_segment_def isdigit_def
        isdigit_char_def reached_def dd_incr_def dd_read_def)

text \<open>
  C2, amended. In a state in which \<open>should_stop\<close> is set, a further tool-use or usage
  event leaves \<open>should_stop\<close> set and lowers no call counter. A tool-use event leaves
  the per-tool counts and \<open>total_calls\<close> unchanged when the total-call cap is configured
  and already reached, and more generally an event that does not raise \<open>total_calls\<close>
  changes no per-tool count; a usage event never changes the call counters. (The
  handlers do not consult \<open>should_stop\<close>: short of the total cap a tool-use event
  within its own limit is still counted, and a usage event still adds its tokens and
  cost.)
\<close>

theorem stop_flag_stays_and_cap_blocks_counting:
  assumes "should_stop st"
  shows "should_stop (snd (handle_tool_call cfg n i st))
         \<and> should_stop (snd (handle_usage_data cfg u m st))
         \<and> total_calls st \<le> total_calls (snd (handle_tool_call cfg n i st))
         \<and> (\<forall>k. count_of (tool_calls st) k
                  \<le> count_of (tool_calls (snd (handle_tool_call cfg n i st))) k)
         \<and> (total_calls (snd (handle_tool_call cfg n i st)) = total_calls st
              \<longrightarrow> (\<forall>k. count_of (tool_calls (snd (handle_tool_call cfg n i st))) k
                         = count_of (tool_calls st) k))
         \<and> (\<forall>cap. max_total_calls cfg = Some cap \<and> cap \<le> total_calls st
              \<longrightarrow> tool_calls (snd (handle_tool_call cfg n i st)) = tool_calls st
                  \<and> total_calls (snd (handle_tool_call cfg n i st)) = total_calls st)
         \<and> tool_calls (snd (handle_usage_data cfg u m st)) = tool_calls st
         \<and> total_calls (snd (handle_usage_data cfg u m st)) = total_calls st"
  using assms handle_tool_call_should_stop [OF assms] handle_usage_data_should_stop [OF assms]
    handle_tool_call_total_mono [of st cfg n i] handle_usage_data_counters [of cfg u m st]
    handle_tool_call_at_cap [of cfg _ st n i]
    handle_tool_call_count_mono [of st _ cfg n i] handle_tool_call_rejected [of cfg n i st]
  by simp

theorem stop_flag_stays_and_cap_blocks_counting_witness:
  "should_stop three_calls_state
   \<and> max_total_calls capped_config = Some 2 \<and> 2 \<le> total_calls three_calls_state
   \<and> should_stop (snd (handle_tool_call capped_config (JStr ''Bash'') (JStr ''t_4'')
                         three_calls_state))
   \<and> total_calls (snd (handle_tool_call capped_config (JStr ''Bash'') (JStr ''t_4'')
                         three_calls_state)) = total_calls three_calls_state
   \<and> tool_calls (snd (handle_tool_call capped_config (JStr ''Bash'') (JStr ''t_4'')
                         three_calls_state)) = tool_calls three_calls_state"
proof -
  have c: "max_total_calls capped_config = Some 2"
    and l: "map_of (tool_limits capped_config) ''Bash'' = None"
    by (simp_all add: capped_config_def)
  have s: "should_stop three_calls_state" and t: "2 \<le> total_calls three_calls_state"
    using three_bash_calls [OF c l, of "''t_3''" "''t_2''" "''t_1''"]
    by (simp_all add: three_calls_state_def)
  show ?thesis
    using c s t
      stop_flag_stays_and_cap_blocks_counting
        [OF s, where cfg = capped_config and n = "JStr ''Bash''" and i = "JStr ''t_4''"]
    by simp
qed

section \<open>Offline analysis works on the live counters\<close>

text \<open>
  C3, as the claim states it, fails: after one counted Bash call, analysing an empty
  transcript leaves the live per-tool counts empty, the live total at 0 and the live
  id-format distribution empty.
\<close>

theorem analysis_clears_live_counts_counterexample:
  "tool_calls one_call_state = [(JStr ''Bash'', 1)]
   \<and> total_calls one_call_state = 1
   \<and> id_format_stats one_call_state = [(''simplified'', 1)]
   \<and> tool_calls (snd (analyze_completed_output default_config [] one_call_state)) = []
   \<and> total_calls (snd (analyze_completed_output default_config [] one_call_state)) = 0
   \<and> id_format_stats (snd (analyze_completed_output default_config [] one_call_state)) = []"
  by (simp add: one_call_state_eq analyze_completed_output_def strip_def init_state_def)

text \<open>
  C3, amended. \<open>analyze_completed_output\<close> computes its snapshot on the live state: it
  first resets the live per-tool counts, the total count and the id-format distribution
  and then replays the transcript on them. So the outcome does not depend on what these
  three held before; the snapshot reports the counters the live state holds afterwards,
  whose total is the sum of the per-tool counts; the cumulative cost and the token
  totals are not reset (with an empty transcript the live state is the old one with the
  three counters cleared).
\<close>

theorem analysis_resets_and_reuses_live_state:
  "analyze_completed_output cfg transcript
       (st\<lparr>tool_calls := tc, total_calls := n, id_format_stats := ids\<rparr>)
     = analyze_completed_output cfg transcript st
   \<and> detected_tool_calls (fst (analyze_completed_output cfg transcript st))
       = total_calls (snd (analyze_completed_output cfg transcript st))
   \<and> tool_breakdown (fst (analyze_completed_output cfg transcript st))
       = tool_calls (snd (analyze_completed_output cfg transcript st))
   \<and> id_format_distribution (fst (analyze_completed_output cfg transcript st))
       = id_format_stats (snd (analyze_completed_output cfg transcript st))
   \<and> detected_tool_calls (fst (analyze_completed_output cfg transcript st))
       = sum_counts (tool_breakdown (fst (analyze_completed_output cfg transcript st)))
   \<and> snd (analyze_completed_output cfg [] st)
       = st\<lparr>tool_calls := [], total_calls := 0, id_format_stats := []\<rparr>"
proof -
  have inv: "total_calls (snd (analyze_completed_output cfg transcript st))
             = sum_counts (tool_calls (snd (analyze_completed_output cfg transcript st)))"
    by (rule analyze_completed_output_pres
          [where P = "\<lambda>s. total_calls s = sum_counts (tool_calls s)"])
       (simp_all add: handle_tool_call_total handle_usage_data_counters sum_counts_Nil)
  have fields: "detected_tool_calls (fst (analyze_completed_output cfg transcript st))
       = total_calls (snd (analyze_completed_output cfg transcript st))
     \<and> tool_breakdown (fst (analyze_completed_output cfg transcript st))
       = tool_calls (snd (analyze_completed_output cfg transcript st))
     \<and> id_format_distribution (fst (analyze_completed_output cfg transcript st))
       = id_format_stats (snd (analyze_completed_output cfg transcript st))"
    by (simp add: analyze_completed_output_def Let_def split: prod.splits)
  show ?thesis
    using inv fields
    by (simp add: analyze_completed_output_def strip_def)
qed

section \<open>The paths of one line\<close>






section \<open>One line, several dispatches\<close>






section \<open>A split object in the accumulation buffer\<close>






section \<open>When the regex fallback runs\<close>




section \<open>The accumulation buffer and its ceiling\<close>

























end
